theory Spec2Isabelle
  imports Main "HOL-Library.Sublist"
begin

section \<open>Python values used by the agent runner\<close>

text \<open>
  Python strings are modelled as \<^typ>\<open>string\<close>; one \<^typ>\<open>char\<close> stands for one code
  point below 256, so \<^const>\<open>length\<close> counts what Python's \<open>len\<close> counts on such text.
  The literals that the source prints in Chinese (labels, banners, the truncation marker)
  are constructors of the output datatypes below instead of character lists.
\<close>

datatype exn = AttributeError | Raised string

text \<open>
  A value that the source only ever inspects through \<open>isinstance(v, str)\<close>, \<open>str(v)\<close>
  and \<open>v.strip()\<close>: either a \<open>str\<close>, or some other object (for instance a list of
  content blocks) given by the text that \<open>str(v)\<close> returns for it.
\<close>

datatype pyval = PyStr string | PyOther string

fun py_str :: "pyval \<Rightarrow> string" where
  "py_str (PyStr s) = s"
| "py_str (PyOther r) = r"

text \<open>\<open>str.isspace\<close> on the code points below 256.\<close>

definition py_isspace :: "char \<Rightarrow> bool" where
  "py_isspace c =
     (let n = (of_char c :: nat)
      in (9 \<le> n \<and> n \<le> 13) \<or> (28 \<le> n \<and> n \<le> 32) \<or> n = 133 \<or> n = 160)"

text \<open>\<open>s.strip()\<close>: leading and trailing whitespace removed.\<close>

definition py_strip :: "string \<Rightarrow> string" where
  "py_strip s = rev (dropWhile py_isspace (rev (dropWhile py_isspace s)))"

text \<open>\<open>s.lower()\<close> on the code points below 256 (\<open>A-Z\<close> and the Latin-1 capitals).\<close>

definition py_lower_char :: "char \<Rightarrow> char" where
  "py_lower_char c =
     (let n = (of_char c :: nat)
      in if (65 \<le> n \<and> n \<le> 90) \<or> (192 \<le> n \<and> n \<le> 222 \<and> n \<noteq> 215)
         then char_of (n + 32) else c)"

definition py_lower :: "string \<Rightarrow> string" where
  "py_lower s = map py_lower_char s"

text \<open>
  \<open>v.strip()\<close> as a method call on an arbitrary value: only a \<open>str\<close> has the method,
  any other object raises \<open>AttributeError\<close>.
\<close>

definition strip_method :: "pyval \<Rightarrow> exn + string" where
  "strip_method v = (case v of PyStr s \<Rightarrow> Inr (py_strip s) | PyOther r \<Rightarrow> Inl AttributeError)"

section \<open>Messages and the checkpoint store (app/agent/memory.py)\<close>

text \<open>
  A message object as the runner reads it with \<open>getattr\<close>: \<open>type_attr\<close> and
  \<open>role_attr\<close> are \<open>None\<close> when the attribute is absent or holds \<open>None\<close>;
  \<open>content_attr\<close> is \<open>None\<close> when the attribute is absent; \<open>str_of\<close> is what
  \<open>str(msg)\<close> returns. The \<open>type\<close> and \<open>role\<close> of a message are strings, as the
  message classes of the agent library declare them; the content is a string or another
  object.
\<close>

record message =
  type_attr :: "string option"
  role_attr :: "string option"
  content_attr :: "pyval option"
  str_of :: string

text \<open>
  A checkpoint dictionary: \<open>channel_values\<close> is \<open>None\<close> when the key is absent,
  and inside it the \<open>messages\<close> entry is \<open>None\<close> when absent or \<open>None\<close>.
\<close>

record checkpoint =
  channel_values :: "message list option option"

text \<open>
  The state of \<open>memory_checkpointer\<close> is given by what its \<open>get\<close> does for the
  configuration of each thread id: it raises, or returns no checkpoint, or a checkpoint.
\<close>

type_synonym checkpointer = "string \<Rightarrow> exn + checkpoint option"

text \<open>The body of \<open>get_messages\<close> inside its \<open>try\<close>.\<close>

definition get_messages_try :: "checkpointer \<Rightarrow> string \<Rightarrow> exn + message list" where
  "get_messages_try memory_checkpointer thread_id =
     (case memory_checkpointer thread_id of
        Inl e \<Rightarrow> Inl e
      | Inr None \<Rightarrow> Inr []
      | Inr (Some checkpoint) \<Rightarrow>
          Inr (case channel_values checkpoint of
                 None \<Rightarrow> []
               | Some None \<Rightarrow> []
               | Some (Some messages) \<Rightarrow> messages))"

text \<open>\<open>get_messages\<close> with its \<open>except Exception: return []\<close>.\<close>

definition get_messages :: "checkpointer \<Rightarrow> string \<Rightarrow> message list" where
  "get_messages memory_checkpointer thread_id =
     (case get_messages_try memory_checkpointer thread_id of
        Inl e \<Rightarrow> []
      | Inr messages \<Rightarrow> messages)"

section \<open>What the program prints\<close>

text \<open>
  \<open>SystemPrompt\<close>, \<open>UserInput\<close> and \<open>ModelResponse\<close> are the three label literals of
  the runner. \<open>Rendered idx label preview truncated\<close> is one printed message block:
  the label in brackets, the preview, and the truncation marker as suffix exactly when
  \<open>truncated\<close> holds (the empty suffix otherwise); \<open>idx\<close> is the loop's \<open>enumerate\<close>
  counter.
\<close>

datatype role_label = SystemPrompt | UserInput | ModelResponse

datatype event =
    TraceHeader
  | Rendered nat role_label string bool
  | SpinnerStart
  | SpinnerStop
  | FinalResult string
  | InteractionError exn
  | MemoryCleared string
  | ClearFailed exn

section \<open>The progress emitter (app/agent/runner.py, \<open>_emit_new_messages\<close>)\<close>

text \<open>\<open>getattr(msg, name, "") or ""\<close> for the \<open>type\<close> and \<open>role\<close> attributes.\<close>

definition attr_text :: "string option \<Rightarrow> string" where
  "attr_text a = (case a of None \<Rightarrow> '''' | Some v \<Rightarrow> v)"

text \<open>Lines 39-47: the label chosen for one message.\<close>

definition role_label_of :: "message \<Rightarrow> role_label" where
  "role_label_of msg =
     (let msg_type = py_lower (attr_text (type_attr msg));
          msg_role = py_lower (attr_text (role_attr msg))
      in if msg_role = ''system'' \<or> msg_type = ''system'' then SystemPrompt
         else if msg_role = ''user'' \<or> msg_type \<in> {''human'', ''user''} then UserInput
         else ModelResponse)"

text \<open>Lines 49-52: the content of a message as stripped text.\<close>

definition stripped_content :: "message \<Rightarrow> string" where
  "stripped_content msg =
     (let content = (case content_attr msg of None \<Rightarrow> PyStr '''' | Some c \<Rightarrow> c)
      in py_strip (py_str content))"

text \<open>
  The loop body, lines 39-57. \<open>role_label\<close> is never empty, so the printed label is
  \<open>role_label\<close> itself.
\<close>

definition emit_message :: "nat \<Rightarrow> message \<Rightarrow> event list" where
  "emit_message idx msg =
     (let role_label = role_label_of msg;
          content = stripped_content msg
      in if content \<noteq> []
         then [Rendered idx role_label (take 2000 content) (length content > 2000)]
         else [])"

text \<open>
  \<open>_emit_new_messages(thread_id, start_idx, trace_started)\<close>, reading the store in
  its current state. The result is what was printed, followed by the returned triple
  \<open>(total, trace_started, printed)\<close>.
\<close>

definition emit_new_messages ::
  "checkpointer \<Rightarrow> string \<Rightarrow> int \<Rightarrow> bool \<Rightarrow> event list \<times> int \<times> bool \<times> bool" where
  "emit_new_messages memory_checkpointer thread_id start_idx trace_started =
     (let messages = get_messages memory_checkpointer thread_id;
          total = int (length messages);
          start_idx = (if start_idx < 0 then 0 else start_idx);
          start_idx = (if start_idx > total then total else start_idx)
      in if start_idx \<ge> total then ([], total, trace_started, False)
         else
           (let header = (if \<not> trace_started then [TraceHeader] else []);
                body = concat (map (\<lambda>(idx, msg). emit_message idx msg)
                         (enumerate (nat start_idx + 1) (drop (nat start_idx) messages)))
            in (header @ body, total, True, True)))"

section \<open>The turn coordinator (app/agent/runner.py, \<open>run_agent\<close>)\<close>

text \<open>
  The result of \<open>agent.invoke\<close>: the \<open>messages\<close> and \<open>output\<close> keys (\<open>None\<close> when
  the key is absent) and the text \<open>str(result)\<close>.
\<close>

record exec_result =
  messages_key :: "message list option"
  output_key :: "pyval option"
  result_str :: string

text \<open>The dictionary \<open>result_box\<close> once the worker thread has ended.\<close>

datatype result_box = BoxResult exec_result | BoxError exn | BoxEmpty

text \<open>
  One run of the worker thread as the coordinator can observe it: \<open>alive k\<close> is the
  \<open>k\<close>-th evaluation of \<open>worker.is_alive()\<close>, \<open>Some\<close> of the store state that the
  poll of that iteration reads while the worker is still running, \<open>None\<close> once it has
  ended; \<open>finished\<close> is the store state after the worker has ended; \<open>box\<close> is what it
  left in \<open>result_box\<close>. A worker that never ends has \<open>alive k \<noteq> None\<close> for all \<open>k\<close>.
\<close>

record worker_run =
  alive :: "nat \<Rightarrow> checkpointer option"
  finished :: checkpointer
  box :: result_box

text \<open>
  The agent is external: from the store it is bound to, the user input and the thread id
  it produces a worker run. \<open>get_agent()\<close> returns one or raises.
\<close>

type_synonym agent = "checkpointer \<Rightarrow> string \<Rightarrow> string \<Rightarrow> worker_run"

text \<open>The process-wide state: the checkpoint store and \<open>_history_offsets\<close>.\<close>

record app_state =
  memory_checkpointer :: checkpointer
  history_offsets :: "string \<rightharpoonup> int"

text \<open>The local variables of \<open>run_agent\<close> that the polling loop updates, and the output.\<close>

record poll_state =
  ps_out :: "event list"
  ps_start_idx :: int
  ps_trace_started :: bool
  ps_spinner_active :: bool

text \<open>
  One iteration of \<open>while worker.is_alive()\<close>, lines 84-89. The call of
  \<open>spinner.stop()\<close> is the event \<open>SpinnerStop\<close>; the pause of \<open>time.sleep\<close> and the
  animation that the spinner prints from its own thread are not part of the model.
\<close>

definition poll_step :: "string \<Rightarrow> bool \<Rightarrow> checkpointer \<Rightarrow> poll_state \<Rightarrow> poll_state" where
  "poll_step thread_id show_trace store s =
     (if show_trace
      then (case emit_new_messages store thread_id (ps_start_idx s) (ps_trace_started s) of
              (evs, new_idx, started, printed) \<Rightarrow>
                if printed \<and> ps_spinner_active s
                then \<lparr>ps_out = ps_out s @ evs @ [SpinnerStop], ps_start_idx = new_idx,
                      ps_trace_started = started, ps_spinner_active = False\<rparr>
                else \<lparr>ps_out = ps_out s @ evs, ps_start_idx = new_idx,
                      ps_trace_started = started, ps_spinner_active = ps_spinner_active s\<rparr>)
      else s)"

text \<open>The loop of lines 83-89; it does not return while the worker stays alive.\<close>

partial_function (option) poll_loop ::
  "(nat \<Rightarrow> checkpointer option) \<Rightarrow> string \<Rightarrow> bool \<Rightarrow> nat \<Rightarrow> poll_state \<Rightarrow> poll_state option" where
  "poll_loop is_alive thread_id show_trace k s =
     (case is_alive k of
        None \<Rightarrow> Some s
      | Some store \<Rightarrow> poll_loop is_alive thread_id show_trace (Suc k)
                       (poll_step thread_id show_trace store s))"

text \<open>Lines 101-109: the final text and the new offset, or the exception of \<open>.strip()\<close>.\<close>

definition final_output_and_offset :: "exec_result \<Rightarrow> int \<Rightarrow> exn + (string \<times> int)" where
  "final_output_and_offset result start_idx =
     (case messages_key result of
        Some (m # ms) \<Rightarrow>
          (let final_msg = last (m # ms)
           in case strip_method (case content_attr final_msg of
                                   None \<Rightarrow> PyStr (str_of final_msg)
                                 | Some c \<Rightarrow> c) of
                Inl e \<Rightarrow> Inl e
              | Inr final_output \<Rightarrow> Inr (final_output, int (length (m # ms))))
      | _ \<Rightarrow>
          (case strip_method (case output_key result of
                                None \<Rightarrow> PyStr (result_str result)
                              | Some v \<Rightarrow> v) of
             Inl e \<Rightarrow> Inl e
           | Inr final_output \<Rightarrow> Inr (final_output, start_idx)))"

text \<open>
  Lines 91-115, after the loop has ended: the result is what was printed, the new state
  and either the exception that leaves the \<open>try\<close> block or the returned text.
\<close>

definition after_join ::
  "worker_run \<Rightarrow> string \<Rightarrow> bool \<Rightarrow> app_state \<Rightarrow> poll_state \<Rightarrow> event list \<times> app_state \<times> (exn + string)" where
  "after_join run thread_id show_trace st s =
     (let out1 = (if ps_spinner_active s then ps_out s @ [SpinnerStop] else ps_out s);
          (evs, start_idx', started') =
             (if show_trace
              then (case emit_new_messages (finished run) thread_id (ps_start_idx s) (ps_trace_started s) of
                      (evs, new_idx, started, printed) \<Rightarrow> (evs, new_idx, started))
              else ([], ps_start_idx s, ps_trace_started s));
          st1 = st\<lparr>memory_checkpointer := finished run\<rparr>
      in case box run of
           BoxError e \<Rightarrow> (out1 @ evs, st1, Inl e)
         | _ \<Rightarrow>
           (let result = (case box run of
                            BoxResult r \<Rightarrow> r
                          | _ \<Rightarrow> \<lparr>messages_key = None, output_key = None, result_str = ''{}''\<rparr>)
            in case final_output_and_offset result start_idx' of
                 Inl e \<Rightarrow> (out1 @ evs, st1, Inl e)
               | Inr (final_output, offset) \<Rightarrow>
                   (out1 @ evs @ [FinalResult final_output],
                    st1\<lparr>history_offsets := (history_offsets st1)(thread_id \<mapsto> offset)\<rparr>,
                    Inr final_output)))"

text \<open>
  Lines 75-80: the spinner is started, \<open>start_idx\<close> is read from
  \<open>_history_offsets\<close> with default 0, and no trace header has been printed.
\<close>

definition poll_start :: "app_state \<Rightarrow> string \<Rightarrow> poll_state" where
  "poll_start st thread_id =
     \<lparr>ps_out = [SpinnerStart],
      ps_start_idx = (case history_offsets st thread_id of None \<Rightarrow> 0 | Some n \<Rightarrow> n),
      ps_trace_started = False, ps_spinner_active = True\<rparr>"

text \<open>The \<open>try\<close> block of \<open>run_agent\<close>, lines 65-115.\<close>

definition run_agent_try ::
  "exn + agent \<Rightarrow> string \<Rightarrow> string \<Rightarrow> bool \<Rightarrow> app_state
     \<Rightarrow> (event list \<times> app_state \<times> (exn + string)) option" where
  "run_agent_try get_agent user_input thread_id show_trace st =
     (case get_agent of
        Inl e \<Rightarrow> Some ([], st, Inl e)
      | Inr agent \<Rightarrow>
          (let run = agent (memory_checkpointer st) user_input thread_id
           in case poll_loop (alive run) thread_id show_trace 0 (poll_start st thread_id) of
                None \<Rightarrow> None
              | Some s \<Rightarrow> Some (after_join run thread_id show_trace st s)))"

text \<open>
  \<open>run_agent(user_input, thread_id, show_trace)\<close> with its \<open>except Exception\<close>:
  what was printed, the returned text and the new state; \<open>None\<close> when it does not return.
\<close>

definition run_agent ::
  "exn + agent \<Rightarrow> string \<Rightarrow> string \<Rightarrow> bool \<Rightarrow> app_state \<Rightarrow> (event list \<times> string \<times> app_state) option" where
  "run_agent get_agent user_input thread_id show_trace st =
     (case run_agent_try get_agent user_input thread_id show_trace st of
        None \<Rightarrow> None
      | Some (out, st', Inl e) \<Rightarrow> Some (out @ [InteractionError e], '''', st')
      | Some (out, st', Inr final_output) \<Rightarrow> Some (out, final_output, st'))"

section \<open>Clearing a thread (app/agent/memory.py, \<open>clear_memory\<close>)\<close>

text \<open>
  \<open>memory_checkpointer.delete\<close> belongs to the external store: given the store state and
  a thread id it raises or returns the new store state.
\<close>

definition clear_memory ::
  "(checkpointer \<Rightarrow> string \<Rightarrow> exn + checkpointer) \<Rightarrow> string \<Rightarrow> app_state \<Rightarrow> event list \<times> app_state" where
  "clear_memory delete thread_id st =
     (case delete (memory_checkpointer st) thread_id of
        Inl e \<Rightarrow> ([ClearFailed e], st)
      | Inr store \<Rightarrow> ([MemoryCleared thread_id], st\<lparr>memory_checkpointer := store\<rparr>))"

text \<open>
  memory.py line 6 creates the store as \<open>InMemorySaver()\<close>. That class of the
  checkpoint library defines no \<open>delete\<close> method, so looking up
  \<open>memory_checkpointer.delete\<close> raises \<open>AttributeError\<close> before anything is removed.
\<close>

definition in_memory_saver_delete :: "checkpointer \<Rightarrow> string \<Rightarrow> exn + checkpointer" where
  "in_memory_saver_delete store thread_id = Inl AttributeError"

section \<open>The monolithic entry point (main.py, \<open>run_agent\<close>)\<close>

text \<open>
  In main.py the agent is invoked on the calling thread: the call does not return
  (\<open>None\<close>), raises, or returns a result; \<open>store_after\<close> is the store state it leaves.
\<close>

record sync_run =
  outcome :: "(exn + exec_result) option"
  store_after :: checkpointer

type_synonym sync_agent = "checkpointer \<Rightarrow> string \<Rightarrow> string \<Rightarrow> sync_run"

text \<open>main.py lines 475-482: one message of the trace; the label looks at \<open>role\<close> only.\<close>

definition main_emit_message :: "nat \<Rightarrow> message \<Rightarrow> event list" where
  "main_emit_message idx msg =
     (let role_label = (if role_attr msg = Some ''system'' then SystemPrompt
                        else if role_attr msg = Some ''user'' then UserInput
                        else ModelResponse);
          content = stripped_content msg
      in if content \<noteq> []
         then [Rendered idx role_label (take 2000 content) (length content > 2000)]
         else [])"

text \<open>main.py lines 472-482: the trace of all messages of the result.\<close>

definition main_trace :: "bool \<Rightarrow> exec_result \<Rightarrow> event list" where
  "main_trace show_trace result =
     (case messages_key result of
        Some msgs \<Rightarrow>
          if show_trace
          then TraceHeader # concat (map (\<lambda>(idx, msg). main_emit_message idx msg) (enumerate 1 msgs))
          else []
      | None \<Rightarrow> [])"

text \<open>main.py lines 484-488: the final text, or the exception of \<open>.strip()\<close>.\<close>

definition main_final_output :: "exec_result \<Rightarrow> exn + string" where
  "main_final_output result =
     (case messages_key result of
        Some (m # ms) \<Rightarrow>
          (let final_msg = last (m # ms)
           in strip_method (case content_attr final_msg of
                              None \<Rightarrow> PyStr (str_of final_msg)
                            | Some c \<Rightarrow> c))
      | _ \<Rightarrow>
          strip_method (case output_key result of
                          None \<Rightarrow> PyStr (result_str result)
                        | Some v \<Rightarrow> v))"

text \<open>
  main.py \<open>run_agent\<close>, lines 452-498, with its \<open>except Exception\<close>: what was printed,
  the returned text and the store; \<open>None\<close> when the call of the agent does not return.
\<close>

definition main_run_agent ::
  "exn + sync_agent \<Rightarrow> string \<Rightarrow> string \<Rightarrow> bool \<Rightarrow> checkpointer
     \<Rightarrow> (event list \<times> string \<times> checkpointer) option" where
  "main_run_agent get_agent user_input thread_id show_trace store =
     (case get_agent of
        Inl e \<Rightarrow> Some ([InteractionError e], '''', store)
      | Inr agent \<Rightarrow>
          (let run = agent store user_input thread_id
           in case outcome run of
                None \<Rightarrow> None
              | Some (Inl e) \<Rightarrow> Some ([InteractionError e], '''', store_after run)
              | Some (Inr result) \<Rightarrow>
                  (case main_final_output result of
                     Inl e \<Rightarrow> Some (main_trace show_trace result @ [InteractionError e], '''',
                                      store_after run)
                   | Inr final_output \<Rightarrow>
                       Some (main_trace show_trace result @ [FinalResult final_output],
                             final_output, store_after run))))"

section \<open>Observations used to state the properties\<close>

text \<open>
  \<open>observes is_alive k stores\<close>: from its \<open>k\<close>-th evaluation on, \<open>is_alive\<close> shows the
  worker running with the store states \<open>stores\<close>, one per poll, and then ended.
\<close>

primrec observes :: "(nat \<Rightarrow> 'a option) \<Rightarrow> nat \<Rightarrow> 'a list \<Rightarrow> bool" where
  "observes is_alive k [] = (is_alive k = None)"
| "observes is_alive k (x # xs) = (is_alive k = Some x \<and> observes is_alive (Suc k) xs)"

text \<open>
  A dispatch has succeeded when the last thing \<open>run_agent\<close> printed is the final result
  block, and has failed when it is the interaction error line.
\<close>

definition dispatch_succeeded :: "event list \<Rightarrow> bool" where
  "dispatch_succeeded out =
     (case rev out of FinalResult txt # earlier \<Rightarrow> True | _ \<Rightarrow> False)"


section \<open>Example data\<close>

definition example_user :: message where
  "example_user = \<lparr>type_attr = Some ''human'', role_attr = None,
                    content_attr = Some (PyStr ''list files''), str_of = ''HumanMessage''\<rparr>"

definition example_ai :: message where
  "example_ai = \<lparr>type_attr = Some ''ai'', role_attr = None,
                  content_attr = Some (PyStr '' done ''), str_of = ''AIMessage''\<rparr>"

definition long_message :: "nat \<Rightarrow> message" where
  "long_message n = \<lparr>type_attr = Some ''ai'', role_attr = None,
                      content_attr = Some (PyStr (replicate n (CHR ''a''))),
                      str_of = ''AIMessage''\<rparr>"

definition tagged_message :: "string option \<Rightarrow> string option \<Rightarrow> message" where
  "tagged_message role type =
     \<lparr>type_attr = type, role_attr = role, content_attr = Some (PyStr ''x''), str_of = ''Message''\<rparr>"

definition example_store :: checkpointer where
  "example_store t =
     (if t = ''t1''
      then Inr (Some \<lparr>channel_values = Some (Some [example_user, example_ai])\<rparr>)
      else if t = ''long''
      then Inr (Some \<lparr>channel_values = Some (Some [long_message 2000, long_message 2001])\<rparr>)
      else if t = ''roles''
      then Inr (Some \<lparr>channel_values = Some (Some
             [tagged_message (Some ''user'') (Some ''system''),
              tagged_message (Some ''user'') (Some ''human''),
              tagged_message (Some ''System'') (Some ''ai''),
              tagged_message None (Some ''human''),
              tagged_message None (Some ''ai'')])\<rparr>)
      else if t = ''broken'' then Inl (Raised ''store failure'')
      else Inr None)"

text \<open>
  The rule for the final text in the words of the specification: the content of the last
  message coerced to text and stripped when the result has a non-empty message list
  (the text of the message itself when it has no content attribute), otherwise the
  \<open>output\<close> field, or else the raw result, coerced to text and stripped.
\<close>

definition final_text_rule :: "exec_result \<Rightarrow> string" where
  "final_text_rule result =
     (case messages_key result of
        Some (m # ms) \<Rightarrow>
          py_strip (py_str (case content_attr (last (m # ms)) of
                              None \<Rightarrow> PyStr (str_of (last (m # ms)))
                            | Some c \<Rightarrow> c))
      | _ \<Rightarrow> py_strip (py_str (case output_key result of
                                  None \<Rightarrow> PyStr (result_str result)
                                | Some v \<Rightarrow> v)))"

text \<open>A store that holds the given messages for thread \<open>t1\<close> and nothing else.\<close>

definition thread_store :: "message list \<Rightarrow> checkpointer" where
  "thread_store msgs t =
     (if t = ''t1'' then Inr (Some \<lparr>channel_values = Some (Some msgs)\<rparr>) else Inr None)"

definition empty_store :: checkpointer where
  "empty_store t = Inr None"

definition initial_state :: app_state where
  "initial_state = \<lparr>memory_checkpointer = empty_store, history_offsets = Map.empty\<rparr>"

definition history_result :: "message list \<Rightarrow> exec_result" where
  "history_result msgs = \<lparr>messages_key = Some msgs, output_key = None, result_str = ''{...}''\<rparr>"

text \<open>
  A worker that is seen alive once, with the messages \<open>seen\<close> in the store, and ends with
  the messages \<open>final\<close> in the store and the given \<open>result_box\<close>.
\<close>

definition one_poll_run :: "message list \<Rightarrow> message list \<Rightarrow> result_box \<Rightarrow> worker_run" where
  "one_poll_run seen final b =
     \<lparr>alive = (\<lambda>k. if k = 0 then Some (thread_store seen) else None),
      finished = thread_store final, box = b\<rparr>"

definition example_agent :: agent where
  "example_agent store user_input thread_id =
     one_poll_run [example_user] [example_user, example_ai]
       (BoxResult (history_result [example_user, example_ai]))"

definition failing_agent :: agent where
  "failing_agent store user_input thread_id =
     one_poll_run [] [example_user] (BoxError (Raised ''model unavailable''))"

definition example_sync_agent :: sync_agent where
  "example_sync_agent store user_input thread_id =
     \<lparr>outcome = Some (Inr (history_result [example_user, example_ai])),
      store_after = thread_store [example_user, example_ai]\<rparr>"












text \<open>
  A reply whose content is a list of content blocks, given by the text that \<open>str\<close>
  returns for it, and an executor that ends with it as the last message of its result.
\<close>

definition blocks_ai :: message where
  "blocks_ai = \<lparr>type_attr = Some ''ai'', role_attr = None,
                 content_attr = Some (PyOther ''[{'type': 'text', 'text': 'done'}]''),
                 str_of = ''AIMessage''\<rparr>"

definition blocks_agent :: agent where
  "blocks_agent store user_input thread_id =
     one_poll_run [example_user] [example_user, blocks_ai]
       (BoxResult (history_result [example_user, blocks_ai]))"


definition dispatched_state :: app_state where
  "dispatched_state = \<lparr>memory_checkpointer = thread_store [example_user, example_ai],
                        history_offsets = [''t1'' \<mapsto> 2]\<rparr>"

section \<open>Properties of the store read\<close>

lemma get_messages_cases:
  "get_messages store t =
     (case store t of
        Inl e \<Rightarrow> []
      | Inr None \<Rightarrow> []
      | Inr (Some cp) \<Rightarrow> (case channel_values cp of Some (Some ms) \<Rightarrow> ms | _ \<Rightarrow> []))"
  by (simp add: get_messages_def get_messages_try_def split: sum.splits option.splits)

section \<open>Properties of the progress emitter\<close>

lemma emit_new_messages_unfold:
  "emit_new_messages store t c ts =
     (let msgs = get_messages store t; k = nat (min (max c 0) (int (length msgs)))
      in if length msgs \<le> k then ([], int (length msgs), ts, False)
         else ((if ts then [] else [TraceHeader]) @
               concat (map (\<lambda>(idx, msg). emit_message idx msg) (enumerate (Suc k) (drop k msgs))),
               int (length msgs), True, True))"
  by (auto simp: emit_new_messages_def Let_def min_def max_def)

lemma emit_new_messages_cursor:
  "fst (snd (emit_new_messages store t c ts)) = int (length (get_messages store t))"
  by (simp add: emit_new_messages_unfold Let_def)

lemma emit_new_messages_at_end:
  assumes "int (length (get_messages store t)) \<le> c"
  shows "emit_new_messages store t c ts = ([], int (length (get_messages store t)), ts, False)"
proof -
  from assms
  have "length (get_messages store t) \<le> nat (min (max c 0) (int (length (get_messages store t))))"
    by linarith
  then show ?thesis
    by (simp add: emit_new_messages_unfold Let_def)
qed

lemma emit_message_Rendered:
  "Rendered i l txt tr \<in> set (emit_message j m) \<Longrightarrow>
   j = i \<and> emit_message i m = [Rendered i l txt tr]"
  by (auto simp: emit_message_def Let_def split: if_splits)

lemma emit_new_messages_rendered:
  assumes "emit_new_messages store t c ts = (evs, c', ts', p)"
      and "Rendered i l txt tr \<in> set evs"
  shows "nat (min (max c 0) (int (length (get_messages store t)))) < i
       \<and> i \<le> length (get_messages store t)
       \<and> emit_message i (get_messages store t ! (i - 1)) = [Rendered i l txt tr]"
proof -
  let ?msgs = "get_messages store t"
  let ?k = "nat (min (max c 0) (int (length ?msgs)))"
  from assms have lt: "?k < length ?msgs"
    by (auto simp: emit_new_messages_unfold Let_def split: if_splits)
  from assms lt have "Rendered i l txt tr \<in> set (concat (map (\<lambda>(idx, msg). emit_message idx msg)
        (enumerate (Suc ?k) (drop ?k ?msgs))))"
    by (auto simp: emit_new_messages_unfold Let_def split: if_splits)
  then obtain j m where jm: "(j, m) \<in> set (enumerate (Suc ?k) (drop ?k ?msgs))"
      and r: "Rendered i l txt tr \<in> set (emit_message j m)"
    by auto
  from r have ji: "j = i" and em: "emit_message i m = [Rendered i l txt tr]"
    using emit_message_Rendered by blast+
  from jm ji have rng: "Suc ?k \<le> i" "i < Suc ?k + length (drop ?k ?msgs)"
      and m: "m = drop ?k ?msgs ! (i - Suc ?k)"
    by (auto simp: in_set_enumerate_eq)
  from rng lt have "i \<le> length ?msgs" by simp
  moreover from m rng lt have "m = ?msgs ! (i - 1)" by simp
  ultimately show ?thesis using rng em by simp
qed

lemma py_strip_replicate: "\<not> py_isspace c \<Longrightarrow> py_strip (replicate n c) = replicate n c"
  by (simp add: py_strip_def)

lemma stripped_long_message: "stripped_content (long_message n) = replicate n (CHR ''a'')"
proof -
  have "\<not> py_isspace (CHR ''a'')" by (simp add: py_isspace_def)
  then show ?thesis
    by (simp add: stripped_content_def long_message_def py_strip_replicate)
qed

lemma role_label_long_message: "role_label_of (long_message n) = ModelResponse"
  unfolding long_message_def by code_simp

lemma example_store_t1:
  "get_messages example_store ''t1'' = [example_user, example_ai]"
  by (simp add: get_messages_cases example_store_def)

lemma example_store_long:
  "get_messages example_store ''long'' = [long_message 2000, long_message 2001]"
  by (simp add: get_messages_cases example_store_def)

lemma example_store_roles:
  "get_messages example_store ''roles'' =
     [tagged_message (Some ''user'') (Some ''system''),
      tagged_message (Some ''user'') (Some ''human''),
      tagged_message (Some ''System'') (Some ''ai''),
      tagged_message None (Some ''human''),
      tagged_message None (Some ''ai'')]"
  by (simp add: get_messages_cases example_store_def)

lemma example_store_unknown:
  "get_messages example_store ''gone'' = []"
  by (simp add: get_messages_cases example_store_def)

lemma emit_example_user:
  "emit_message i example_user = [Rendered i UserInput ''list files'' False]"
proof -
  have "stripped_content example_user = ''list files''" by code_simp
  moreover have "role_label_of example_user = UserInput" by code_simp
  ultimately show ?thesis by (simp add: emit_message_def)
qed

lemma emit_example_ai:
  "emit_message i example_ai = [Rendered i ModelResponse ''done'' False]"
proof -
  have "stripped_content example_ai = ''done''" by code_simp
  moreover have "role_label_of example_ai = ModelResponse" by code_simp
  ultimately show ?thesis by (simp add: emit_message_def)
qed

lemma stripped_tagged_message: "stripped_content (tagged_message r ty) = ''x''"
proof -
  have "py_strip ''x'' = ''x''" by code_simp
  then show ?thesis by (simp add: stripped_content_def tagged_message_def)
qed

lemma emit_tagged_message:
  "emit_message i (tagged_message r ty) = [Rendered i (role_label_of (tagged_message r ty)) ''x'' False]"
  by (simp add: emit_message_def stripped_tagged_message)

lemma role_label_examples:
  "role_label_of (tagged_message (Some ''user'') (Some ''system'')) = SystemPrompt"
  "role_label_of (tagged_message (Some ''user'') (Some ''human'')) = UserInput"
  "role_label_of (tagged_message (Some ''System'') (Some ''ai'')) = SystemPrompt"
  "role_label_of (tagged_message None (Some ''human'')) = UserInput"
  "role_label_of (tagged_message None (Some ''ai'')) = ModelResponse"
  by code_simp+

lemma emit_example_t1:
  "emit_new_messages example_store ''t1'' 0 ts =
     ((if ts then [] else [TraceHeader]) @
      [Rendered 1 UserInput ''list files'' False, Rendered 2 ModelResponse ''done'' False],
      2, True, True)"
  by (simp add: emit_new_messages_unfold example_store_t1
        emit_example_user emit_example_ai)

lemma emit_example_long:
  "emit_new_messages example_store ''long'' 0 False =
     ([TraceHeader,
       Rendered 1 ModelResponse (replicate 2000 (CHR ''a'')) False,
       Rendered 2 ModelResponse (replicate 2000 (CHR ''a'')) True], 2, True, True)"
  by (simp add: emit_new_messages_unfold example_store_long emit_message_def
        stripped_long_message role_label_long_message)

lemma emit_example_roles:
  "emit_new_messages example_store ''roles'' 0 False =
     ([TraceHeader,
       Rendered 1 SystemPrompt ''x'' False,
       Rendered 2 UserInput ''x'' False,
       Rendered 3 SystemPrompt ''x'' False,
       Rendered 4 UserInput ''x'' False,
       Rendered 5 ModelResponse ''x'' False], 5, True, True)"
  by (simp add: emit_new_messages_unfold example_store_roles
        emit_tagged_message role_label_examples)

section \<open>Claims about the store read and the progress emitter\<close>

text \<open>
  Claim C9. \<open>get_messages\<close> always returns a list of messages: when the store has no
  checkpoint for the thread, and when the read of the store raises, the list is empty;
  otherwise it is the message list of the checkpoint. Whatever the body in the \<open>try\<close>
  raises is turned into the empty list.
\<close>

theorem get_messages_never_raises:
  "(\<forall>e. store t = Inl e \<longrightarrow> get_messages store t = [])
   \<and> (store t = Inr None \<longrightarrow> get_messages store t = [])
   \<and> (\<forall>e. get_messages_try store t = Inl e \<longrightarrow> get_messages store t = [])
   \<and> (\<forall>ms. get_messages_try store t = Inr ms \<longrightarrow> get_messages store t = ms)"
  by (simp add: get_messages_def get_messages_try_def split: sum.splits option.splits)

theorem get_messages_never_raises_witness:
  "example_store ''broken'' = Inl (Raised ''store failure'')
   \<and> get_messages example_store ''broken'' = []
   \<and> example_store ''gone'' = Inr None
   \<and> get_messages example_store ''gone'' = []
   \<and> get_messages_try example_store ''t1'' = Inr [example_user, example_ai]
   \<and> get_messages example_store ''t1'' = [example_user, example_ai]"
proof -
  have a: "example_store ''broken'' = Inl (Raised ''store failure'')"
    by (simp add: example_store_def)
  have b: "example_store ''gone'' = Inr None"
    by (simp add: example_store_def)
  have c: "get_messages_try example_store ''t1'' = Inr [example_user, example_ai]"
    by (simp add: get_messages_try_def example_store_def)
  show ?thesis
    using a b c
      get_messages_never_raises [of example_store "''broken''"]
      get_messages_never_raises [of example_store "''gone''"]
      get_messages_never_raises [of example_store "''t1''"]
    by simp
qed

text \<open>
  Claim C6. For every thread and every integer cursor, negative or beyond the message
  count included, the drain returns: it behaves as on the cursor clamped into
  \<open>[0, len(messages)]\<close>, the returned cursor is \<open>len(messages)\<close>, and when the clamped
  cursor has reached \<open>len(messages)\<close> nothing is printed and \<open>(len(messages), False)\<close> is
  returned with the trace flag unchanged. On a thread without messages every cursor
  gives cursor 0 and no output.
\<close>

theorem drain_clamps_cursor:
  "(let total = int (length (get_messages store t));
        clamped = min (max c 0) total
    in 0 \<le> clamped \<and> clamped \<le> total
       \<and> emit_new_messages store t c ts = emit_new_messages store t clamped ts
       \<and> fst (snd (emit_new_messages store t c ts)) = total
       \<and> (clamped \<ge> total \<longrightarrow> emit_new_messages store t c ts = ([], total, ts, False))
       \<and> (get_messages store t = [] \<longrightarrow> emit_new_messages store t c ts = ([], 0, ts, False)))"
proof -
  let ?n = "int (length (get_messages store t))"
  let ?k = "min (max c 0) ?n"
  have a: "0 \<le> ?k" "?k \<le> ?n" by simp_all
  have b: "min (max ?k 0) ?n = ?k" by simp
  have c: "emit_new_messages store t c ts = emit_new_messages store t ?k ts"
    unfolding emit_new_messages_unfold[of store t ?k] emit_new_messages_unfold[of store t c] Let_def
    by (simp only: b)
  have d: "?k \<ge> ?n \<longrightarrow> emit_new_messages store t c ts = ([], ?n, ts, False)"
    using c emit_new_messages_at_end[of store t ?k ts] by simp
  have e: "get_messages store t = [] \<longrightarrow> emit_new_messages store t c ts = ([], 0, ts, False)"
    by (simp add: emit_new_messages_unfold Let_def)
  show ?thesis
    using a c d e emit_new_messages_cursor[of store t c ts] by (simp add: Let_def)
qed

theorem drain_clamps_cursor_witness:
  "emit_new_messages example_store ''t1'' 5 False = ([], 2, False, False)
   \<and> emit_new_messages example_store ''gone'' 7 True = ([], 0, True, False)
   \<and> emit_new_messages example_store ''gone'' (- 3) False = ([], 0, False, False)
   \<and> emit_new_messages example_store ''t1'' (- 3) False
       = emit_new_messages example_store ''t1'' 0 False"
proof -
  have a: "emit_new_messages example_store ''t1'' 5 False = ([], 2, False, False)"
    using drain_clamps_cursor [of example_store "''t1''" 5 False]
    by (auto simp: example_store_t1 Let_def)
  have b: "emit_new_messages example_store ''gone'' 7 True = ([], 0, True, False)"
    using drain_clamps_cursor [of example_store "''gone''" 7 True]
    by (auto simp: example_store_unknown Let_def)
  have c: "emit_new_messages example_store ''gone'' (- 3) False = ([], 0, False, False)"
    using drain_clamps_cursor [of example_store "''gone''" "- 3" False]
    by (auto simp: example_store_unknown Let_def)
  have d: "emit_new_messages example_store ''t1'' (- 3) False
             = emit_new_messages example_store ''t1'' 0 False"
    using drain_clamps_cursor [of example_store "''t1''" "- 3" False]
    by (auto simp: example_store_t1 Let_def)
  from a b c d show ?thesis by blast
qed

text \<open>
  Claim C2, as stated: a second drain with the same thread and the same cursor, with no
  append in between, would print nothing and report \<open>did_emit = False\<close>. The cursor is an
  argument of the drain, which keeps no cursor of its own: on thread \<open>t1\<close> with two
  messages the second call with cursor 0 prints both messages again and reports
  \<open>True\<close>, with the trace flag as the first call left it or reset.
\<close>

theorem drain_same_cursor_counterexample:
  "emit_new_messages example_store ''t1'' 0 False =
     ([TraceHeader, Rendered 1 UserInput ''list files'' False,
       Rendered 2 ModelResponse ''done'' False], 2, True, True)
   \<and> emit_new_messages example_store ''t1'' 0 True =
     ([Rendered 1 UserInput ''list files'' False,
       Rendered 2 ModelResponse ''done'' False], 2, True, True)"
  by (simp add: emit_example_t1)

text \<open>
  Claim C2, amended: when the second drain is given the cursor (and trace flag) that the
  first drain returned, as \<open>run_agent\<close> does, and nothing was appended in between, it
  prints nothing and reports \<open>did_emit = False\<close>.
\<close>

theorem drain_again_is_silent:
  assumes "emit_new_messages store t c ts = (evs, c', ts', printed)"
  shows "emit_new_messages store t c' ts' = ([], c', ts', False)"
proof -
  from assms have "c' = int (length (get_messages store t))"
    using emit_new_messages_cursor[of store t c ts] by simp
  then show ?thesis
    using emit_new_messages_at_end[of store t c' ts'] by simp
qed

theorem drain_again_is_silent_witness:
  "emit_new_messages example_store ''t1'' 0 False =
     ([TraceHeader, Rendered 1 UserInput ''list files'' False,
       Rendered 2 ModelResponse ''done'' False], 2, True, True)
   \<and> emit_new_messages example_store ''t1'' 2 True = ([], 2, True, False)"
proof -
  have a: "emit_new_messages example_store ''t1'' 0 False =
     ([TraceHeader, Rendered 1 UserInput ''list files'' False,
       Rendered 2 ModelResponse ''done'' False], 2, True, True)"
    by (simp add: emit_example_t1)
  from drain_again_is_silent [OF a] a show ?thesis by simp
qed

text \<open>
  Claim C7, as stated: the role field would come first, so that a recognised role decides
  the label whatever the type tag is. In thread \<open>roles\<close> the first two messages both
  have role \<open>user\<close>; the one with type tag \<open>system\<close> is labelled as system prompt, the
  one with type tag \<open>human\<close> as user input.
\<close>

theorem role_field_first_counterexample:
  "role_attr (get_messages example_store ''roles'' ! 0) = Some ''user''
   \<and> role_attr (get_messages example_store ''roles'' ! 1) = Some ''user''
   \<and> fst (emit_new_messages example_store ''roles'' 0 False) =
       [TraceHeader,
        Rendered 1 SystemPrompt ''x'' False,
        Rendered 2 UserInput ''x'' False,
        Rendered 3 SystemPrompt ''x'' False,
        Rendered 4 UserInput ''x'' False,
        Rendered 5 ModelResponse ''x'' False]"
  by (simp add: emit_example_roles example_store_roles tagged_message_def)

text \<open>
  Claim C7, amended: every message block that the drain prints carries one of the three
  labels, chosen by category and not by field: system prompt when the lower-cased role
  field or the lower-cased type tag is \<open>system\<close>; otherwise user input when the role is
  \<open>user\<close> or the type tag is \<open>human\<close> or \<open>user\<close>; otherwise model response. So a role
  field \<open>system\<close> decides the label whatever the type tag is, and a role field \<open>user\<close>
  decides it unless the type tag is \<open>system\<close>.
\<close>

theorem role_label_precedence:
  assumes "emit_new_messages store t c ts = (evs, c', ts', printed)"
      and "Rendered i l txt tr \<in> set evs"
  shows "(let msg = get_messages store t ! (i - 1);
              msg_role = py_lower (attr_text (role_attr msg));
              msg_type = py_lower (attr_text (type_attr msg))
          in (msg_role = ''system'' \<longrightarrow> l = SystemPrompt)
           \<and> (msg_type = ''system'' \<longrightarrow> l = SystemPrompt)
           \<and> (msg_role = ''user'' \<and> msg_type \<noteq> ''system'' \<longrightarrow> l = UserInput)
           \<and> (msg_role \<noteq> ''system'' \<and> msg_type \<noteq> ''system''
                \<and> (msg_type = ''human'' \<or> msg_type = ''user'') \<longrightarrow> l = UserInput)
           \<and> (msg_role \<noteq> ''system'' \<and> msg_type \<noteq> ''system'' \<and> msg_role \<noteq> ''user''
                \<and> msg_type \<noteq> ''human'' \<and> msg_type \<noteq> ''user'' \<longrightarrow> l = ModelResponse))"
proof -
  from emit_new_messages_rendered [OF assms]
  have "emit_message i (get_messages store t ! (i - 1)) = [Rendered i l txt tr]"
    by simp
  then have "l = role_label_of (get_messages store t ! (i - 1))"
    by (auto simp: emit_message_def Let_def split: if_splits)
  then show ?thesis
    by (simp add: role_label_of_def Let_def)
qed

theorem role_label_precedence_witness:
  "emit_new_messages example_store ''roles'' 0 False =
     ([TraceHeader,
       Rendered 1 SystemPrompt ''x'' False,
       Rendered 2 UserInput ''x'' False,
       Rendered 3 SystemPrompt ''x'' False,
       Rendered 4 UserInput ''x'' False,
       Rendered 5 ModelResponse ''x'' False], 5, True, True)
   \<and> py_lower (attr_text (type_attr (get_messages example_store ''roles'' ! (1 - 1)))) = ''system''
   \<and> py_lower (attr_text (role_attr (get_messages example_store ''roles'' ! (3 - 1)))) = ''system''"
proof -
  have a: "Rendered 1 SystemPrompt ''x'' False \<in> set
     [TraceHeader,
       Rendered 1 SystemPrompt ''x'' False,
       Rendered 2 UserInput ''x'' False,
       Rendered 3 SystemPrompt ''x'' False,
       Rendered 4 UserInput ''x'' False,
       Rendered 5 ModelResponse ''x'' False]" by simp
  have b: "py_lower (attr_text (type_attr (get_messages example_store ''roles'' ! (1 - 1)))) = ''system''"
    unfolding example_store_roles by code_simp
  have c: "py_lower (attr_text (role_attr (get_messages example_store ''roles'' ! (3 - 1)))) = ''system''"
    unfolding example_store_roles by code_simp
  from role_label_precedence [OF emit_example_roles a] b c emit_example_roles
  show ?thesis by simp
qed

text \<open>
  Claim C8. For every message block that the drain prints, the preview is the first 2000
  characters of the stripped content and the truncation marker is appended exactly when
  the stripped content is longer than 2000 characters: content of length 2000 is printed
  in full without marker, content of length 2001 as 2000 characters with the marker.
\<close>

theorem truncation_boundary:
  assumes "emit_new_messages store t c ts = (evs, c', ts', printed)"
      and "Rendered i l txt tr \<in> set evs"
  shows "(let content = stripped_content (get_messages store t ! (i - 1))
          in txt = take 2000 content
           \<and> (tr \<longleftrightarrow> length content > 2000)
           \<and> (length content \<le> 2000 \<longrightarrow> txt = content \<and> \<not> tr)
           \<and> (length content = 2001 \<longrightarrow> length txt = 2000 \<and> tr))"
proof -
  from emit_new_messages_rendered [OF assms]
  have "emit_message i (get_messages store t ! (i - 1)) = [Rendered i l txt tr]"
    by simp
  then have "txt = take 2000 (stripped_content (get_messages store t ! (i - 1)))"
        and "tr \<longleftrightarrow> length (stripped_content (get_messages store t ! (i - 1))) > 2000"
    by (auto simp: emit_message_def Let_def split: if_splits)
  then show ?thesis
    by (simp add: Let_def)
qed

theorem truncation_boundary_witness:
  "emit_new_messages example_store ''long'' 0 False =
     ([TraceHeader,
       Rendered 1 ModelResponse (replicate 2000 (CHR ''a'')) False,
       Rendered 2 ModelResponse (replicate 2000 (CHR ''a'')) True], 2, True, True)
   \<and> length (stripped_content (get_messages example_store ''long'' ! (1 - 1))) = 2000
   \<and> length (stripped_content (get_messages example_store ''long'' ! (2 - 1))) = 2001"
proof -
  have a: "Rendered 1 ModelResponse (replicate 2000 (CHR ''a'')) False \<in> set
     [TraceHeader,
       Rendered 1 ModelResponse (replicate 2000 (CHR ''a'')) False,
       Rendered 2 ModelResponse (replicate 2000 (CHR ''a'')) True]" by simp
  have b: "Rendered 2 ModelResponse (replicate 2000 (CHR ''a'')) True \<in> set
     [TraceHeader,
       Rendered 1 ModelResponse (replicate 2000 (CHR ''a'')) False,
       Rendered 2 ModelResponse (replicate 2000 (CHR ''a'')) True]" by simp
  from truncation_boundary [OF emit_example_long a] truncation_boundary [OF emit_example_long b]
       emit_example_long
  show ?thesis by (simp add: example_store_long stripped_long_message)
qed

section \<open>Properties of the turn coordinator\<close>

lemma poll_loop_observes:
  "observes is_alive k stores \<Longrightarrow>
   poll_loop is_alive t sh k s = Some (fold (poll_step t sh) stores s)"
proof (induction stores arbitrary: k s)
  case Nil
  then show ?case by (subst poll_loop.simps) simp
next
  case (Cons store stores)
  then show ?case by (subst poll_loop.simps) simp
qed

lemma run_agent_try_observes:
  assumes "observes (alive (agent (memory_checkpointer st) u t)) 0 stores"
  shows "run_agent_try (Inr agent) u t sh st =
           Some (after_join (agent (memory_checkpointer st) u t) t sh st
                   (fold (poll_step t sh) stores (poll_start st t)))"
  using poll_loop_observes [OF assms] by (simp add: run_agent_try_def)

lemma strip_method_Inr: "strip_method v = Inr x \<Longrightarrow> x = py_strip (py_str v)"
  by (cases v) (simp_all add: strip_method_def)

lemma final_output_and_offset_eq:
  "final_output_and_offset result idx =
     (case main_final_output result of
        Inl e \<Rightarrow> Inl e
      | Inr txt \<Rightarrow> Inr (txt, case messages_key result of
                                 Some (m # ms) \<Rightarrow> int (length (m # ms))
                               | _ \<Rightarrow> idx))"
  by (simp add: final_output_and_offset_def main_final_output_def Let_def
           split: option.splits list.splits sum.splits)

lemma main_final_output_Inr:
  "main_final_output result = Inr txt \<Longrightarrow> txt = final_text_rule result"
  by (auto simp: main_final_output_def final_text_rule_def Let_def
           dest: strip_method_Inr split: option.splits list.splits)

lemma dispatch_succeeded_simps:
  "dispatch_succeeded (out @ [FinalResult txt])"
  "\<not> dispatch_succeeded (out @ [InteractionError e])"
  "dispatch_succeeded [FinalResult txt]"
  "\<not> dispatch_succeeded [InteractionError e]"
  by (simp_all add: dispatch_succeeded_def)

lemma dispatch_succeeded_append:
  "ys \<noteq> [] \<Longrightarrow> dispatch_succeeded (xs @ ys) = dispatch_succeeded ys"
  by (cases "rev ys") (simp_all add: dispatch_succeeded_def)

text \<open>What \<open>after_join\<close> prints before the final block, and the cursor it hands on.\<close>

lemma after_join_cases:
  "after_join run t sh st s =
     (let out = ps_out s @ (if ps_spinner_active s then [SpinnerStop] else []) @
                (if sh then fst (emit_new_messages (finished run) t (ps_start_idx s) (ps_trace_started s))
                 else []);
          idx = (if sh then int (length (get_messages (finished run) t)) else ps_start_idx s);
          st1 = st\<lparr>memory_checkpointer := finished run\<rparr>;
          result = (case box run of
                      BoxResult r \<Rightarrow> r
                    | _ \<Rightarrow> \<lparr>messages_key = None, output_key = None, result_str = ''{}''\<rparr>)
      in case box run of
           BoxError e \<Rightarrow> (out, st1, Inl e)
         | _ \<Rightarrow> (case final_output_and_offset result idx of
                   Inl e \<Rightarrow> (out, st1, Inl e)
                 | Inr (final_output, offset) \<Rightarrow>
                     (out @ [FinalResult final_output],
                      st1\<lparr>history_offsets := (history_offsets st)(t \<mapsto> offset)\<rparr>,
                      Inr final_output)))"
proof -
  obtain evs c ts p where e: "emit_new_messages (finished run) t (ps_start_idx s) (ps_trace_started s)
      = (evs, c, ts, p)"
    by (metis prod_cases4)
  have c: "c = int (length (get_messages (finished run) t))"
    using emit_new_messages_cursor [of "finished run" t "ps_start_idx s" "ps_trace_started s"] e
    by simp
  show ?thesis
    by (simp add: after_join_def Let_def e c split: result_box.splits sum.splits prod.splits)
qed

lemma thread_store_messages: "get_messages (thread_store msgs) ''t1'' = msgs"
  by (simp add: get_messages_cases thread_store_def)


lemma observes_one_poll:
  "observes (alive (one_poll_run seen final b)) 0 [thread_store seen]"
  by (simp add: one_poll_run_def)

lemma main_final_output_example:
  "main_final_output (history_result [example_user, example_ai]) = Inr ''done''"
proof -
  have "py_strip '' done '' = ''done''" by code_simp
  then show ?thesis
    by (simp add: main_final_output_def history_result_def example_ai_def strip_method_def)
qed

lemma history_result_sel:
  "messages_key (history_result msgs) = Some msgs"
  "output_key (history_result msgs) = None"
  by (simp_all add: history_result_def)

lemma example_dispatch:
  "run_agent (Inr example_agent) ''list files'' ''t1'' True initial_state =
     Some ([SpinnerStart, TraceHeader, Rendered 1 UserInput ''list files'' False, SpinnerStop,
            Rendered 2 ModelResponse ''done'' False, FinalResult ''done''],
           ''done'',
           \<lparr>memory_checkpointer = thread_store [example_user, example_ai],
            history_offsets = [''t1'' \<mapsto> 2]\<rparr>)"
proof -
  let ?run = "one_poll_run [example_user] [example_user, example_ai]
                (BoxResult (history_result [example_user, example_ai]))"
  let ?s = "\<lparr>ps_out = [SpinnerStart, TraceHeader, Rendered 1 UserInput ''list files'' False,
                       SpinnerStop],
             ps_start_idx = 1, ps_trace_started = True, ps_spinner_active = False\<rparr>"
  have run: "example_agent (memory_checkpointer initial_state) ''list files'' ''t1'' = ?run"
    by (simp add: example_agent_def)
  have obs: "observes (alive (example_agent (memory_checkpointer initial_state) ''list files'' ''t1'')) 0
               [thread_store [example_user]]"
    unfolding example_agent_def by (rule observes_one_poll)
  have s: "fold (poll_step ''t1'' True) [thread_store [example_user]] (poll_start initial_state ''t1'')
         = ?s"
    by (simp add: poll_step_def poll_start_def initial_state_def emit_new_messages_unfold
          thread_store_messages emit_example_user)
  have aj: "after_join ?run ''t1'' True initial_state ?s =
      ([SpinnerStart, TraceHeader, Rendered 1 UserInput ''list files'' False, SpinnerStop,
        Rendered 2 ModelResponse ''done'' False, FinalResult ''done''],
       \<lparr>memory_checkpointer = thread_store [example_user, example_ai],
        history_offsets = [''t1'' \<mapsto> 2]\<rparr>, Inr ''done'')"
    by (simp add: after_join_cases Let_def one_poll_run_def emit_new_messages_unfold
          thread_store_messages emit_example_ai final_output_and_offset_eq
          main_final_output_example history_result_sel initial_state_def)
  have tr: "run_agent_try (Inr example_agent) ''list files'' ''t1'' True initial_state =
          Some (after_join ?run ''t1'' True initial_state ?s)"
    using run_agent_try_observes [where agent = example_agent and st = initial_state
      and u = "''list files''" and t = "''t1''" and sh = True, OF obs]
    by (simp only: run s)
  show ?thesis
    unfolding run_agent_def tr aj by simp
qed

lemma failing_dispatch:
  "run_agent (Inr failing_agent) ''list files'' ''t1'' True initial_state =
     Some ([SpinnerStart, SpinnerStop, TraceHeader, Rendered 1 UserInput ''list files'' False,
            InteractionError (Raised ''model unavailable'')],
           '''',
           \<lparr>memory_checkpointer = thread_store [example_user], history_offsets = Map.empty\<rparr>)"
proof -
  let ?run = "one_poll_run [] [example_user] (BoxError (Raised ''model unavailable''))"
  let ?s = "\<lparr>ps_out = [SpinnerStart], ps_start_idx = 0, ps_trace_started = False,
             ps_spinner_active = True\<rparr>"
  have run: "failing_agent (memory_checkpointer initial_state) ''list files'' ''t1'' = ?run"
    by (simp add: failing_agent_def)
  have obs: "observes (alive (failing_agent (memory_checkpointer initial_state) ''list files'' ''t1'')) 0
               [thread_store []]"
    unfolding failing_agent_def by (rule observes_one_poll)
  have s: "fold (poll_step ''t1'' True) [thread_store []] (poll_start initial_state ''t1'') = ?s"
    by (simp add: poll_step_def poll_start_def initial_state_def emit_new_messages_unfold
          thread_store_messages)
  have aj: "after_join ?run ''t1'' True initial_state ?s =
      ([SpinnerStart, SpinnerStop, TraceHeader, Rendered 1 UserInput ''list files'' False],
       \<lparr>memory_checkpointer = thread_store [example_user], history_offsets = Map.empty\<rparr>,
       Inl (Raised ''model unavailable''))"
    by (simp add: after_join_cases Let_def one_poll_run_def emit_new_messages_unfold
          thread_store_messages emit_example_user initial_state_def)
  have tr: "run_agent_try (Inr failing_agent) ''list files'' ''t1'' True initial_state =
          Some (after_join ?run ''t1'' True initial_state ?s)"
    using run_agent_try_observes [where agent = failing_agent and st = initial_state
      and u = "''list files''" and t = "''t1''" and sh = True, OF obs]
    by (simp only: run s)
  show ?thesis
    unfolding run_agent_def tr aj by simp
qed

text \<open>
  When the last message of the result carries content that is not a \<open>str\<close>, line 105
  raises at \<open>.strip()\<close>: no offset is written and the dispatch ends in the handler.
\<close>

lemma non_text_content_raises:
  assumes "messages_key result = Some (m # ms)"
      and "content_attr (last (m # ms)) = Some (PyOther r)"
  shows "final_output_and_offset result idx = Inl AttributeError"
  using assms by (simp add: final_output_and_offset_def strip_method_def Let_def)

section \<open>Claims about one dispatch\<close>

text \<open>
  Claim C4. When the worker ends with an exception of the executor, \<open>run_agent\<close>
  returns: after the output of the polling loop it still prints what one last drain of
  the finished store yields (when the trace is shown), then the interaction error line;
  it returns the empty text instead of raising, and the read offsets are those from
  before the dispatch.
\<close>

theorem executor_failure_is_reported:
  assumes "observes (alive (agent (memory_checkpointer st) u t)) 0 stores"
      and "box (agent (memory_checkpointer st) u t) = BoxError e"
  shows "(let run = agent (memory_checkpointer st) u t;
              s = fold (poll_step t sh) stores (poll_start st t);
              final_drain = emit_new_messages (finished run) t (ps_start_idx s) (ps_trace_started s)
          in \<exists>st'. run_agent (Inr agent) u t sh st =
                     Some (ps_out s @ (if ps_spinner_active s then [SpinnerStop] else []) @
                           (if sh then fst final_drain else []) @ [InteractionError e],
                           '''', st')
                 \<and> history_offsets st' = history_offsets st
                 \<and> memory_checkpointer st' = finished run)"
  using run_agent_try_observes [where agent = agent and st = st and u = u and t = t
          and stores = stores and sh = sh, OF assms(1)]
  by (simp add: run_agent_def after_join_cases assms(2) Let_def)

theorem executor_failure_is_reported_witness:
  "observes (alive (failing_agent (memory_checkpointer initial_state) ''list files'' ''t1'')) 0
     [thread_store []]
   \<and> box (failing_agent (memory_checkpointer initial_state) ''list files'' ''t1'')
       = BoxError (Raised ''model unavailable'')
   \<and> (\<exists>st'. run_agent (Inr failing_agent) ''list files'' ''t1'' True initial_state =
         Some ([SpinnerStart, SpinnerStop, TraceHeader, Rendered 1 UserInput ''list files'' False,
                InteractionError (Raised ''model unavailable'')], '''', st')
       \<and> history_offsets st' = history_offsets initial_state)"
proof -
  have obs: "observes (alive (failing_agent (memory_checkpointer initial_state) ''list files'' ''t1'')) 0
               [thread_store []]"
    unfolding failing_agent_def by (rule observes_one_poll)
  have bx: "box (failing_agent (memory_checkpointer initial_state) ''list files'' ''t1'')
       = BoxError (Raised ''model unavailable'')"
    by (simp add: failing_agent_def one_poll_run_def)
  from executor_failure_is_reported [where agent = failing_agent and st = initial_state
      and u = "''list files''" and t = "''t1''" and sh = True, OF obs bx]
  obtain st' where "run_agent (Inr failing_agent) ''list files'' ''t1'' True initial_state =
         Some (ps_out (fold (poll_step ''t1'' True) [thread_store []] (poll_start initial_state ''t1'')) @
               (if ps_spinner_active (fold (poll_step ''t1'' True) [thread_store []] (poll_start initial_state ''t1''))
                then [SpinnerStop] else []) @
               fst (emit_new_messages (finished (failing_agent (memory_checkpointer initial_state) ''list files'' ''t1'')) ''t1''
                     (ps_start_idx (fold (poll_step ''t1'' True) [thread_store []] (poll_start initial_state ''t1'')))
                     (ps_trace_started (fold (poll_step ''t1'' True) [thread_store []] (poll_start initial_state ''t1'')))) @
               [InteractionError (Raised ''model unavailable'')], '''', st')"
      and h: "history_offsets st' = history_offsets initial_state"
    by (auto simp: Let_def)
  with failing_dispatch have "run_agent (Inr failing_agent) ''list files'' ''t1'' True initial_state =
         Some ([SpinnerStart, SpinnerStop, TraceHeader, Rendered 1 UserInput ''list files'' False,
                InteractionError (Raised ''model unavailable'')], '''', st')"
    by simp
  with obs bx h show ?thesis by blast
qed


lemma emit_blocks_ai:
  "emit_message i blocks_ai = [Rendered i ModelResponse ''[{'type': 'text', 'text': 'done'}]'' False]"
proof -
  have "stripped_content blocks_ai = ''[{'type': 'text', 'text': 'done'}]''" by code_simp
  moreover have "role_label_of blocks_ai = ModelResponse" by code_simp
  ultimately show ?thesis by (simp add: emit_message_def)
qed

lemma main_final_output_blocks:
  "main_final_output (history_result [example_user, blocks_ai]) = Inl AttributeError"
  by (simp add: main_final_output_def history_result_def blocks_ai_def strip_method_def)

text \<open>
  Claim C1, at the input where the code departs from it. The executor succeeds and the
  last message of its result carries a list of content blocks instead of a \<open>str\<close>. The
  claim has the returned text equal to that content coerced to text and stripped, and the
  stored read offset equal to 2. The drain does coerce the content (lines 50-51) and
  prints it, but line 105 calls \<open>.strip()\<close> on the content as it is: the call raises, the
  handler prints the interaction error, \<open>run_agent\<close> returns the empty text, and line 106
  is not reached, so no read offset is stored for the thread.
\<close>

theorem non_text_final_content_fails:
  "run_agent (Inr blocks_agent) ''list files'' ''t1'' True initial_state =
     Some ([SpinnerStart, TraceHeader, Rendered 1 UserInput ''list files'' False, SpinnerStop,
            Rendered 2 ModelResponse ''[{'type': 'text', 'text': 'done'}]'' False,
            InteractionError AttributeError],
           '''',
           \<lparr>memory_checkpointer = thread_store [example_user, blocks_ai],
            history_offsets = Map.empty\<rparr>)
   \<and> box (blocks_agent (memory_checkpointer initial_state) ''list files'' ''t1'')
        = BoxResult (history_result [example_user, blocks_ai])
   \<and> messages_key (history_result [example_user, blocks_ai]) = Some [example_user, blocks_ai]
   \<and> content_attr (last [example_user, blocks_ai])
        = Some (PyOther ''[{'type': 'text', 'text': 'done'}]'')"
proof -
  let ?run = "one_poll_run [example_user] [example_user, blocks_ai]
                (BoxResult (history_result [example_user, blocks_ai]))"
  let ?s = "\<lparr>ps_out = [SpinnerStart, TraceHeader, Rendered 1 UserInput ''list files'' False,
                       SpinnerStop],
             ps_start_idx = 1, ps_trace_started = True, ps_spinner_active = False\<rparr>"
  have run: "blocks_agent (memory_checkpointer initial_state) ''list files'' ''t1'' = ?run"
    by (simp add: blocks_agent_def)
  have obs: "observes (alive (blocks_agent (memory_checkpointer initial_state) ''list files'' ''t1'')) 0
               [thread_store [example_user]]"
    unfolding blocks_agent_def by (rule observes_one_poll)
  have s: "fold (poll_step ''t1'' True) [thread_store [example_user]] (poll_start initial_state ''t1'')
         = ?s"
    by (simp add: poll_step_def poll_start_def initial_state_def emit_new_messages_unfold
          thread_store_messages emit_example_user)
  have aj: "after_join ?run ''t1'' True initial_state ?s =
      ([SpinnerStart, TraceHeader, Rendered 1 UserInput ''list files'' False, SpinnerStop,
        Rendered 2 ModelResponse ''[{'type': 'text', 'text': 'done'}]'' False],
       \<lparr>memory_checkpointer = thread_store [example_user, blocks_ai],
        history_offsets = Map.empty\<rparr>, Inl AttributeError)"
    by (simp add: after_join_cases Let_def one_poll_run_def emit_new_messages_unfold
          thread_store_messages emit_blocks_ai final_output_and_offset_eq
          main_final_output_blocks history_result_sel initial_state_def)
  have tr: "run_agent_try (Inr blocks_agent) ''list files'' ''t1'' True initial_state =
          Some (after_join ?run ''t1'' True initial_state ?s)"
    using run_agent_try_observes [where agent = blocks_agent and st = initial_state
      and u = "''list files''" and t = "''t1''" and sh = True, OF obs]
    by (simp only: run s)
  have a: "run_agent (Inr blocks_agent) ''list files'' ''t1'' True initial_state =
     Some ([SpinnerStart, TraceHeader, Rendered 1 UserInput ''list files'' False, SpinnerStop,
            Rendered 2 ModelResponse ''[{'type': 'text', 'text': 'done'}]'' False,
            InteractionError AttributeError],
           '''',
           \<lparr>memory_checkpointer = thread_store [example_user, blocks_ai],
            history_offsets = Map.empty\<rparr>)"
    unfolding run_agent_def tr aj by simp
  have b: "box (blocks_agent (memory_checkpointer initial_state) ''list files'' ''t1'')
        = BoxResult (history_result [example_user, blocks_ai])"
    by (simp add: blocks_agent_def one_poll_run_def)
  have c: "content_attr (last [example_user, blocks_ai])
        = Some (PyOther ''[{'type': 'text', 'text': 'done'}]'')"
    by (simp add: blocks_ai_def)
  from a b c show ?thesis by (simp add: history_result_sel)
qed

text \<open>
  Claim C10. Given the same executor result, \<open>run_agent\<close> of main.py and \<open>run_agent\<close>
  of the runner return the same text, and either both succeed or both report an
  interaction error; when they succeed the text is the one of the rule: last message
  content, else \<open>output\<close>, else the raw result, coerced to text and stripped.
\<close>

theorem final_text_agrees:
  assumes "observes (alive (agent (memory_checkpointer st) u t)) 0 stores"
      and "box (agent (memory_checkpointer st) u t) = BoxResult result"
      and "outcome (magent store u' t') = Some (Inr result)"
  shows "\<exists>txt out st' out' store'.
           run_agent (Inr agent) u t sh st = Some (out, txt, st')
         \<and> main_run_agent (Inr magent) u' t' sh' store = Some (out', txt, store')
         \<and> (dispatch_succeeded out \<longleftrightarrow> dispatch_succeeded out')
         \<and> (dispatch_succeeded out \<longrightarrow> txt = final_text_rule result)"
proof (cases "main_final_output result")
  case (Inl e)
  then show ?thesis
    using run_agent_try_observes [where agent = agent and st = st and u = u and t = t
          and stores = stores and sh = sh, OF assms(1)] assms(2,3)
    by (simp add: run_agent_def main_run_agent_def after_join_cases final_output_and_offset_eq
          Let_def dispatch_succeeded_append dispatch_succeeded_simps)
next
  case (Inr x)
  then show ?thesis
    using run_agent_try_observes [where agent = agent and st = st and u = u and t = t
          and stores = stores and sh = sh, OF assms(1)] assms(2,3) main_final_output_Inr [OF Inr]
    by (simp add: run_agent_def main_run_agent_def after_join_cases final_output_and_offset_eq
          Let_def dispatch_succeeded_append dispatch_succeeded_simps)
qed

theorem final_text_agrees_witness:
  "observes (alive (example_agent (memory_checkpointer initial_state) ''list files'' ''t1'')) 0
     [thread_store [example_user]]
   \<and> box (example_agent (memory_checkpointer initial_state) ''list files'' ''t1'')
        = BoxResult (history_result [example_user, example_ai])
   \<and> outcome (example_sync_agent empty_store ''list files'' ''t1'')
        = Some (Inr (history_result [example_user, example_ai]))
   \<and> (\<exists>out st' out' store'.
         run_agent (Inr example_agent) ''list files'' ''t1'' True initial_state
           = Some (out, ''done'', st')
       \<and> main_run_agent (Inr example_sync_agent) ''list files'' ''t1'' True empty_store
           = Some (out', ''done'', store'))"
proof -
  have obs: "observes (alive (example_agent (memory_checkpointer initial_state) ''list files'' ''t1'')) 0
               [thread_store [example_user]]"
    unfolding example_agent_def by (rule observes_one_poll)
  have bx: "box (example_agent (memory_checkpointer initial_state) ''list files'' ''t1'')
        = BoxResult (history_result [example_user, example_ai])"
    by (simp add: example_agent_def one_poll_run_def)
  have oc: "outcome (example_sync_agent empty_store ''list files'' ''t1'')
        = Some (Inr (history_result [example_user, example_ai]))"
    by (simp add: example_sync_agent_def)
  from final_text_agrees [where agent = example_agent and st = initial_state
      and u = "''list files''" and t = "''t1''" and sh = True and sh' = True
      and magent = example_sync_agent, OF obs bx oc]
  obtain x out st' out' store' where
      a: "run_agent (Inr example_agent) ''list files'' ''t1'' True initial_state = Some (out, x, st')"
  and b: "main_run_agent (Inr example_sync_agent) ''list files'' ''t1'' True empty_store
            = Some (out', x, store')"
    by blast
  from a example_dispatch have "x = ''done''" by simp
  with a b obs bx oc show ?thesis by blast
qed

section \<open>Properties of sequences of dispatches\<close>





























section \<open>Claims about sequences of dispatches and about clearing\<close>




text \<open>Whatever the store's \<open>delete\<close> does, \<open>clear_memory\<close> leaves the read offsets alone.\<close>

lemma clear_memory_keeps_offsets:
  "history_offsets (snd (clear_memory delete t st)) = history_offsets st"
  by (simp add: clear_memory_def split: sum.splits)

text \<open>
  Claim C3, at the input where the code departs from it. After a dispatch that left two
  messages and read offset 2 for thread \<open>t1\<close>, the claim has \<open>clear_memory\<close> remove the
  messages and the offset entry, so that the next dispatch starts its cursor at 0, and
  report a failure only for a thread without recorded state. The store is an
  \<open>InMemorySaver\<close>, which has no \<open>delete\<close>: the call raises inside the \<open>try\<close>, the
  failure line is printed for every thread, both messages stay in the store, the offset
  entry stays 2, and the next dispatch starts its cursor at 2.
\<close>

theorem clear_memory_removes_nothing:
  "clear_memory in_memory_saver_delete t st = ([ClearFailed AttributeError], st)
   \<and> get_messages (memory_checkpointer
         (snd (clear_memory in_memory_saver_delete ''t1'' dispatched_state))) ''t1''
       = [example_user, example_ai]
   \<and> history_offsets (snd (clear_memory in_memory_saver_delete ''t1'' dispatched_state)) ''t1''
       = Some 2
   \<and> ps_start_idx (poll_start (snd (clear_memory in_memory_saver_delete ''t1'' dispatched_state))
        ''t1'') = 2"
  by (simp add: clear_memory_def in_memory_saver_delete_def dispatched_state_def poll_start_def
        thread_store_messages)

end
